theory Spec2Isabelle
  imports Complex_Main
begin

section \<open>Exceptions and numbers\<close>

text \<open>
  The Python exceptions the two service classes and the interpreter's arithmetic can
  raise, each with the text that \<^verbatim>\<open>str(e)\<close> gives. \<^verbatim>\<open>ValueError\<close> is the only one
  that \<^verbatim>\<open>calculator.py\<close> raises itself; \<^verbatim>\<open>ZeroDivisionError\<close> and
  \<^verbatim>\<open>OverflowError\<close> come from the interpreter (\<^verbatim>\<open>a ** b\<close>).
\<close>

datatype pyexc =
    ValueError string
  | ZeroDivisionError string
  | OverflowError string

definition str :: "pyexc \<Rightarrow> string" where
  "str e = (case e of ValueError m \<Rightarrow> m | ZeroDivisionError m \<Rightarrow> m | OverflowError m \<Rightarrow> m)"

text \<open>
  The message of \<^verbatim>\<open>Calculator.division\<close>, one \<open>char\<close> per code point: the three
  letters outside ASCII (a with tilde, twice, and e with acute) are the code points
  \<open>0xE3\<close> and \<open>0xE9\<close>.
\<close>

definition division_message :: string where
  "division_message =
     ''Divis'' @ [CHR 0xE3] @ ''o por zero n'' @ [CHR 0xE3] @ ''o '' @ [CHR 0xE9] @ '' permitido''"


section \<open>Calculator\<close>




text \<open>
  \<^verbatim>\<open>def division(self, a, b): if b == 0: raise ValueError(...); return a / b\<close>
\<close>

definition Calculator_division :: "real \<Rightarrow> real \<Rightarrow> pyexc + real" where
  "Calculator_division a b =
     (if b = 0 then Inl (ValueError division_message) else Inr (a / b))"



section \<open>The boundary layer's divide operation\<close>

text \<open>
  \<^verbatim>\<open>raise HTTPException(status_code=..., detail=...)\<close>: the failure response of an
  endpoint.
\<close>

datatype HTTPException = HTTPException (status_code: nat) (detail: string)

text \<open>
  \<^verbatim>\<open>api_divide\<close>: the call of \<^verbatim>\<open>calc.division\<close> inside \<^verbatim>\<open>try\<close>; the first handler is
  for \<^verbatim>\<open>ZeroDivisionError\<close>, the second for every other exception. A returned
  \<^verbatim>\<open>{"result": result}\<close> (status 200) is \<open>Inr result\<close>.
\<close>

definition api_divide :: "real \<Rightarrow> real \<Rightarrow> HTTPException + real" where
  "api_divide a b =
     (case Calculator_division a b of
        Inr result \<Rightarrow> Inr result
      | Inl (ZeroDivisionError m) \<Rightarrow> Inl (HTTPException 400 ''Division by zero is not allowed'')
      | Inl e \<Rightarrow> Inl (HTTPException 400 (''Calculation error: '' @ str e)))"

section \<open>CalculatorUsers\<close>

text \<open>
  A user is the dict \<^verbatim>\<open>{"id": id, "name": name}\<close>: the fields are its two keys. Python
  dicts are objects: \<^verbatim>\<open>self.User\<close> holds references to them, \<^verbatim>\<open>create\<close>, \<^verbatim>\<open>read\<close>
  and \<^verbatim>\<open>update\<close> return such a reference, and \<^verbatim>\<open>update\<close> writes through one. So the
  state is the dict \<^verbatim>\<open>self.User\<close>, from ids to references, together with the heap of
  the user dicts allocated so far; a reference is a position in that heap.
\<close>

type_synonym ref = nat

record user =
  user_id :: int
  user_name :: string

record store =
  User :: "int \<rightharpoonup> ref"
  heap :: "user list"

text \<open>The dict a reference points to.\<close>

definition deref :: "store \<Rightarrow> ref \<Rightarrow> user" where
  "deref s r = heap s ! r"

text \<open>\<^verbatim>\<open>def __init__(self): self.User = {}\<close>\<close>

definition CalculatorUsers_init :: store where
  "CalculatorUsers_init = \<lparr>User = Map.empty, heap = []\<rparr>"

text \<open>
  Every method returns what the call gives, the exception raised or the value returned,
  and the state it leaves.

  \<^verbatim>\<open>create\<close>: raises when \<^verbatim>\<open>id in self.User\<close>; otherwise allocates the dict, stores
  its reference under \<^verbatim>\<open>id\<close> and returns the reference.
\<close>

definition CalculatorUsers_create :: "store \<Rightarrow> int \<Rightarrow> string \<Rightarrow> (pyexc + ref) \<times> store" where
  "CalculatorUsers_create s i name =
     (if i \<in> dom (User s) then (Inl (ValueError ''ID already exist''), s)
      else
        let r = length (heap s);
            s1 = s\<lparr>heap := heap s @ [\<lparr>user_id = i, user_name = name\<rparr>]\<rparr>;
            s2 = s1\<lparr>User := (User s1)(i \<mapsto> r)\<rparr>
        in (Inr r, s2))"

text \<open>\<^verbatim>\<open>read\<close>: raises when \<^verbatim>\<open>id not in self.User\<close>; otherwise returns \<^verbatim>\<open>self.User[id]\<close>.\<close>

definition CalculatorUsers_read :: "store \<Rightarrow> int \<Rightarrow> (pyexc + ref) \<times> store" where
  "CalculatorUsers_read s i =
     (if i \<notin> dom (User s) then (Inl (ValueError ''User is not found''), s)
      else (Inr (the (User s i)), s))"

text \<open>
  \<^verbatim>\<open>update\<close>: raises when \<^verbatim>\<open>id not in self.User\<close>; otherwise
  \<^verbatim>\<open>self.User[id]["name"] = new_name\<close> writes the key \<^verbatim>\<open>name\<close> of the dict that
  \<^verbatim>\<open>self.User[id]\<close> refers to, and \<^verbatim>\<open>self.User[id]\<close> is returned.
\<close>

definition CalculatorUsers_update :: "store \<Rightarrow> int \<Rightarrow> string \<Rightarrow> (pyexc + ref) \<times> store" where
  "CalculatorUsers_update s i new_name =
     (if i \<notin> dom (User s) then (Inl (ValueError ''User is not found''), s)
      else
        let r = the (User s i);
            s1 = s\<lparr>heap := (heap s)[r := (heap s ! r)\<lparr>user_name := new_name\<rparr>]\<rparr>
        in (Inr (the (User s1 i)), s1))"

text \<open>\<^verbatim>\<open>delete\<close>: raises when \<^verbatim>\<open>id not in self.User\<close>; otherwise \<^verbatim>\<open>del self.User[id]\<close>.\<close>

definition CalculatorUsers_delete :: "store \<Rightarrow> int \<Rightarrow> (pyexc + unit) \<times> store" where
  "CalculatorUsers_delete s i =
     (if i \<notin> dom (User s) then (Inl (ValueError ''User is not found''), s)
      else (Inr (), s\<lparr>User := (User s)(i := None)\<rparr>))"

subsection \<open>Sequences of calls\<close>

text \<open>
  A caller makes one call after another on the same object, whether the call before
  raised or returned (each endpoint of the boundary layer catches the exception).
\<close>

datatype call = Create int string | Read int | Update int string | Delete int

fun perform :: "store \<Rightarrow> call \<Rightarrow> store" where
  "perform s (Create i name) = snd (CalculatorUsers_create s i name)"
| "perform s (Read i) = snd (CalculatorUsers_read s i)"
| "perform s (Update i new_name) = snd (CalculatorUsers_update s i new_name)"
| "perform s (Delete i) = snd (CalculatorUsers_delete s i)"

fun run :: "store \<Rightarrow> call list \<Rightarrow> store" where
  "run s [] = s"
| "run s (c # cs) = run (perform s c) cs"

text \<open>The states of a store: the new object, and what calls make of it.\<close>

inductive reachable :: "store \<Rightarrow> bool" where
  init: "reachable CalculatorUsers_init"
| step: "reachable s \<Longrightarrow> reachable (perform s c)"

text \<open>
  Every reference in \<^verbatim>\<open>self.User\<close> points to an allocated dict whose \<^verbatim>\<open>id\<close> is the key
  it is stored under. Python has no dangling reference; the record type has, so what is
  said about the content of a record is said of the states that satisfy this, which
  are all the states calls can reach (\<open>reachable_wf_store\<close> below).
\<close>

definition wf_store :: "store \<Rightarrow> bool" where
  "wf_store s \<longleftrightarrow> (\<forall>i r. User s i = Some r \<longrightarrow> r < length (heap s) \<and> user_id (heap s ! r) = i)"

section \<open>Calculator: results\<close>






text \<open>
  C3 on the code. \<^verbatim>\<open>division\<close> signals a zero divisor with \<^verbatim>\<open>ValueError\<close>, the kind
  the rest of the module uses too, so \<^verbatim>\<open>api_divide(10, 0)\<close> passes the handler for
  \<^verbatim>\<open>ZeroDivisionError\<close> and answers from the general one: status 400, with the detail
  \<^verbatim>\<open>Calculation error: \<close> followed by the message of \<^verbatim>\<open>division\<close>, not the detail
  of the dedicated handler.
\<close>

theorem api_divide_zero_general_handler:
  "api_divide 10 0 = Inl (HTTPException 400 (''Calculation error: '' @ division_message)) \<and>
   api_divide 10 0 \<noteq> Inl (HTTPException 400 ''Division by zero is not allowed'')"
  by (simp add: api_divide_def Calculator_division_def str_def division_message_def)

text \<open>No input reaches the dedicated handler of \<^verbatim>\<open>api_divide\<close>.\<close>

lemma api_divide_dedicated_handler_dead:
  "api_divide a b \<noteq> Inl (HTTPException 400 ''Division by zero is not allowed'')"
  by (simp add: api_divide_def Calculator_division_def str_def division_message_def)

section \<open>CalculatorUsers: the invariant\<close>

lemma wf_store_init: "wf_store CalculatorUsers_init"
  by (simp add: wf_store_def CalculatorUsers_init_def)

lemma wf_store_create:
  assumes "wf_store s"
  shows "wf_store (snd (CalculatorUsers_create s i name))"
proof (cases "i \<in> dom (User s)")
  case True
  with assms show ?thesis by (simp add: CalculatorUsers_create_def)
next
  case False
  have "r < Suc (length (heap s)) \<and> (heap s @ [u]) ! r = heap s ! r \<and> user_id (heap s ! r) = k"
    if "User s k = Some r" for k r u
    using assms that by (simp add: wf_store_def nth_append less_SucI)
  with False show ?thesis
    by (simp add: CalculatorUsers_create_def wf_store_def Let_def)
qed

lemma wf_store_read: "wf_store s \<Longrightarrow> wf_store (snd (CalculatorUsers_read s i))"
  by (simp add: CalculatorUsers_read_def)

lemma wf_store_update:
  assumes "wf_store s"
  shows "wf_store (snd (CalculatorUsers_update s i new_name))"
proof (cases "i \<in> dom (User s)")
  case False
  with assms show ?thesis by (simp add: CalculatorUsers_update_def)
next
  case True
  with assms show ?thesis
    by (auto simp: CalculatorUsers_update_def wf_store_def Let_def nth_list_update)
qed

lemma wf_store_delete: "wf_store s \<Longrightarrow> wf_store (snd (CalculatorUsers_delete s i))"
  by (auto simp: CalculatorUsers_delete_def wf_store_def)

lemma wf_store_perform: "wf_store s \<Longrightarrow> wf_store (perform s c)"
  by (cases c) (simp_all add: wf_store_create wf_store_read wf_store_update wf_store_delete)

lemma reachable_wf_store: "reachable s \<Longrightarrow> wf_store s"
  by (induction rule: reachable.induct) (simp_all add: wf_store_init wf_store_perform)

lemma reachable_run: "reachable s \<Longrightarrow> reachable (run s cs)"
  by (induction cs arbitrary: s) (simp_all add: reachable.step)

text \<open>Two keys never share a dict.\<close>

lemma wf_store_no_alias:
  "wf_store s \<Longrightarrow> User s i = Some r \<Longrightarrow> User s k = Some r \<Longrightarrow> i = k"
  by (auto simp: wf_store_def)

text \<open>No call frees a dict or writes the key \<^verbatim>\<open>id\<close> of one.\<close>

lemma perform_user_id:
  assumes "r < length (heap s)"
  shows "r < length (heap (perform s c)) \<and> user_id (heap (perform s c) ! r) = user_id (heap s ! r)"
proof (cases c)
  case (Create i name)
  with assms show ?thesis
    by (simp add: CalculatorUsers_create_def Let_def nth_append)
next
  case (Read i)
  with assms show ?thesis
    by (simp add: CalculatorUsers_read_def)
next
  case (Update i new_name)
  with assms show ?thesis
    by (cases "the (User s i) = r") (simp_all add: CalculatorUsers_update_def Let_def)
next
  case (Delete i)
  with assms show ?thesis
    by (simp add: CalculatorUsers_delete_def)
qed

lemma run_user_id:
  "r < length (heap s) \<Longrightarrow>
     r < length (heap (run s cs)) \<and> user_id (heap (run s cs) ! r) = user_id (heap s ! r)"
proof (induction cs arbitrary: s)
  case Nil
  then show ?case by simp
next
  case (Cons c cs)
  from Cons.prems have step: "r < length (heap (perform s c))"
    and same: "user_id (heap (perform s c) ! r) = user_id (heap s ! r)"
    using perform_user_id [of r s c] by simp_all
  from Cons.IH [OF step] same show ?case by simp
qed

section \<open>CalculatorUsers: results\<close>

text \<open>
  C4. For every store state in which \<open>id\<close> is absent and every name,
  \<^verbatim>\<open>create(id, name)\<close> succeeds, inserts the record \<^verbatim>\<open>{id, name}\<close> under \<open>id\<close> and
  returns that record, and \<^verbatim>\<open>read(id)\<close> on the resulting state returns it, with the
  content \<^verbatim>\<open>{id, name}\<close>.
\<close>

theorem create_then_read:
  assumes "i \<notin> dom (User s)"
  shows "\<exists>r. fst (CalculatorUsers_create s i name) = Inr r \<and>
           User (snd (CalculatorUsers_create s i name)) i = Some r \<and>
           deref (snd (CalculatorUsers_create s i name)) r = \<lparr>user_id = i, user_name = name\<rparr> \<and>
           fst (CalculatorUsers_read (snd (CalculatorUsers_create s i name)) i) = Inr r"
  using assms
  by (simp add: CalculatorUsers_create_def CalculatorUsers_read_def deref_def Let_def)

theorem create_then_read_witness:
  "1 \<notin> dom (User CalculatorUsers_init) \<and>
   (\<exists>r. fst (CalculatorUsers_create CalculatorUsers_init 1 ''John Doe'') = Inr r \<and>
      User (snd (CalculatorUsers_create CalculatorUsers_init 1 ''John Doe'')) 1 = Some r \<and>
      deref (snd (CalculatorUsers_create CalculatorUsers_init 1 ''John Doe'')) r =
        \<lparr>user_id = 1, user_name = ''John Doe''\<rparr> \<and>
      fst (CalculatorUsers_read (snd (CalculatorUsers_create CalculatorUsers_init 1 ''John Doe'')) 1) =
        Inr r)"
proof -
  have absent: "1 \<notin> dom (User CalculatorUsers_init)"
    by (simp add: CalculatorUsers_init_def)
  from create_then_read [OF absent, of "''John Doe''"] absent show ?thesis
    by blast
qed

text \<open>
  C5. For every store state in which \<open>id\<close> is already present (in particular, after a
  successful \<^verbatim>\<open>create(id, name)\<close>), \<^verbatim>\<open>create(id, name')\<close> fails for any \<open>name'\<close>, with
  the \<^verbatim>\<open>ValueError\<close> of a duplicate key; \<^verbatim>\<open>create\<close> fails in no other case.
\<close>

theorem create_duplicate:
  "(i \<in> dom (User s) \<longrightarrow>
      fst (CalculatorUsers_create s i name') = Inl (ValueError ''ID already exist'')) \<and>
   (i \<notin> dom (User s) \<longrightarrow>
      fst (CalculatorUsers_create (snd (CalculatorUsers_create s i name)) i name') =
        Inl (ValueError ''ID already exist'')) \<and>
   (isl (fst (CalculatorUsers_create s i name')) \<longleftrightarrow> i \<in> dom (User s))"
  by (simp add: CalculatorUsers_create_def Let_def)

theorem create_duplicate_witness:
  "1 \<notin> dom (User CalculatorUsers_init) \<and>
   fst (CalculatorUsers_create (snd (CalculatorUsers_create CalculatorUsers_init 1 ''John Doe''))
          1 ''Jane Doe'') = Inl (ValueError ''ID already exist'') \<and>
   \<not> isl (fst (CalculatorUsers_create CalculatorUsers_init 1 ''Jane Doe''))"
proof -
  have absent: "1 \<notin> dom (User CalculatorUsers_init)"
    by (simp add: CalculatorUsers_init_def)
  with create_duplicate [of 1 CalculatorUsers_init "''Jane Doe''" "''John Doe''"]
  show ?thesis by blast
qed

text \<open>
  C6. For every store state and every \<open>id\<close> absent from the store, each of
  \<^verbatim>\<open>read(id)\<close>, \<^verbatim>\<open>update(id, name)\<close> and \<^verbatim>\<open>delete(id)\<close> fails with the \<^verbatim>\<open>ValueError\<close>
  of a missing user; when \<open>id\<close> is present, \<^verbatim>\<open>read\<close> returns the stored record,
  \<^verbatim>\<open>update\<close> succeeds, and \<^verbatim>\<open>delete\<close> succeeds and removes the entry, so that a
  following \<^verbatim>\<open>read(id)\<close> fails in the same way.
\<close>

theorem not_found_iff_absent:
  "(i \<notin> dom (User s) \<longrightarrow>
      fst (CalculatorUsers_read s i) = Inl (ValueError ''User is not found'') \<and>
      fst (CalculatorUsers_update s i name) = Inl (ValueError ''User is not found'') \<and>
      fst (CalculatorUsers_delete s i) = Inl (ValueError ''User is not found'')) \<and>
   (i \<in> dom (User s) \<longrightarrow>
      (\<exists>r. User s i = Some r \<and> fst (CalculatorUsers_read s i) = Inr r) \<and>
      \<not> isl (fst (CalculatorUsers_update s i name)) \<and>
      fst (CalculatorUsers_delete s i) = Inr () \<and>
      i \<notin> dom (User (snd (CalculatorUsers_delete s i))) \<and>
      fst (CalculatorUsers_read (snd (CalculatorUsers_delete s i)) i) =
        Inl (ValueError ''User is not found''))"
  by (auto simp: CalculatorUsers_read_def CalculatorUsers_update_def CalculatorUsers_delete_def
      Let_def)

theorem not_found_iff_absent_witness:
  "999 \<notin> dom (User CalculatorUsers_init) \<and>
   fst (CalculatorUsers_read CalculatorUsers_init 999) = Inl (ValueError ''User is not found'') \<and>
   fst (CalculatorUsers_update CalculatorUsers_init 999 ''John Smith'') =
     Inl (ValueError ''User is not found'') \<and>
   fst (CalculatorUsers_delete CalculatorUsers_init 999) = Inl (ValueError ''User is not found'') \<and>
   1 \<in> dom (User (perform CalculatorUsers_init (Create 1 ''John Doe''))) \<and>
   fst (CalculatorUsers_delete (perform CalculatorUsers_init (Create 1 ''John Doe'')) 1) = Inr () \<and>
   fst (CalculatorUsers_read
          (snd (CalculatorUsers_delete (perform CalculatorUsers_init (Create 1 ''John Doe'')) 1)) 1) =
     Inl (ValueError ''User is not found'')"
proof -
  have absent: "999 \<notin> dom (User CalculatorUsers_init)"
    by (simp add: CalculatorUsers_init_def)
  have present: "1 \<in> dom (User (perform CalculatorUsers_init (Create 1 ''John Doe'')))"
    by (simp add: CalculatorUsers_init_def CalculatorUsers_create_def Let_def)
  from absent present
    not_found_iff_absent [of 999 CalculatorUsers_init "''John Smith''"]
    not_found_iff_absent [of 1 "perform CalculatorUsers_init (Create 1 ''John Doe'')" "''John Smith''"]
  show ?thesis by blast
qed

text \<open>
  C7. For every store state in which \<open>id\<close> is present, \<^verbatim>\<open>update(id, newName)\<close> writes the
  name of the stored record in place (the same dict stays under every key, only its
  name changes) and returns that record; a following \<^verbatim>\<open>read(id)\<close> returns the record,
  whose name is \<open>newName\<close> and whose id is still \<open>id\<close>. In particular
  \<^verbatim>\<open>create(1, "John Doe")\<close>, \<^verbatim>\<open>update(1, "John Smith")\<close>, \<^verbatim>\<open>read(1)\<close> yields
  \<^verbatim>\<open>{id: 1, name: "John Smith"}\<close>.
\<close>

theorem update_then_read:
  "(reachable s \<and> User s i = Some r \<longrightarrow>
      fst (CalculatorUsers_update s i new_name) = Inr r \<and>
      User (snd (CalculatorUsers_update s i new_name)) = User s \<and>
      deref (snd (CalculatorUsers_update s i new_name)) r = (deref s r)\<lparr>user_name := new_name\<rparr> \<and>
      fst (CalculatorUsers_read (snd (CalculatorUsers_update s i new_name)) i) = Inr r \<and>
      user_name (deref (snd (CalculatorUsers_update s i new_name)) r) = new_name \<and>
      user_id (deref (snd (CalculatorUsers_update s i new_name)) r) = i) \<and>
   (\<exists>r. fst (CalculatorUsers_read
              (run CalculatorUsers_init [Create 1 ''John Doe'', Update 1 ''John Smith'']) 1) = Inr r \<and>
         deref (run CalculatorUsers_init [Create 1 ''John Doe'', Update 1 ''John Smith'']) r =
           \<lparr>user_id = 1, user_name = ''John Smith''\<rparr>)"
proof (intro conjI impI)
  assume "reachable s \<and> User s i = Some r"
  then have wf: "wf_store s" and r: "User s i = Some r"
    by (simp_all add: reachable_wf_store)
  from wf r have alloc: "r < length (heap s)" and key: "user_id (heap s ! r) = i"
    by (simp_all add: wf_store_def)
  from r have present: "i \<in> dom (User s)"
    by blast
  from present r show "fst (CalculatorUsers_update s i new_name) = Inr r"
    by (simp add: CalculatorUsers_update_def Let_def)
  from present show "User (snd (CalculatorUsers_update s i new_name)) = User s"
    by (simp add: CalculatorUsers_update_def Let_def)
  from present r alloc
  show stored: "deref (snd (CalculatorUsers_update s i new_name)) r = (deref s r)\<lparr>user_name := new_name\<rparr>"
    by (simp add: CalculatorUsers_update_def deref_def Let_def)
  from present r show "fst (CalculatorUsers_read (snd (CalculatorUsers_update s i new_name)) i) = Inr r"
    by (simp add: CalculatorUsers_update_def CalculatorUsers_read_def Let_def)
  from stored show "user_name (deref (snd (CalculatorUsers_update s i new_name)) r) = new_name"
    by simp
  from stored key show "user_id (deref (snd (CalculatorUsers_update s i new_name)) r) = i"
    by (simp add: deref_def)
next
  show "\<exists>r. fst (CalculatorUsers_read
              (run CalculatorUsers_init [Create 1 ''John Doe'', Update 1 ''John Smith'']) 1) = Inr r \<and>
         deref (run CalculatorUsers_init [Create 1 ''John Doe'', Update 1 ''John Smith'']) r =
           \<lparr>user_id = 1, user_name = ''John Smith''\<rparr>"
    by (simp add: CalculatorUsers_init_def CalculatorUsers_create_def CalculatorUsers_update_def
        CalculatorUsers_read_def deref_def Let_def)
qed

theorem update_then_read_witness:
  "reachable (perform CalculatorUsers_init (Create 1 ''John Doe'')) \<and>
   User (perform CalculatorUsers_init (Create 1 ''John Doe'')) 1 = Some 0 \<and>
   fst (CalculatorUsers_update (perform CalculatorUsers_init (Create 1 ''John Doe'')) 1 ''John Smith'') =
     Inr 0 \<and>
   user_name (deref (snd (CalculatorUsers_update (perform CalculatorUsers_init (Create 1 ''John Doe''))
                            1 ''John Smith'')) 0) = ''John Smith'' \<and>
   user_id (deref (snd (CalculatorUsers_update (perform CalculatorUsers_init (Create 1 ''John Doe''))
                          1 ''John Smith'')) 0) = 1"
proof -
  have reach: "reachable (perform CalculatorUsers_init (Create 1 ''John Doe''))"
    by (rule reachable.step [OF reachable.init])
  have stored: "User (perform CalculatorUsers_init (Create 1 ''John Doe'')) 1 = Some 0"
    by (simp add: CalculatorUsers_init_def CalculatorUsers_create_def Let_def)
  from reach stored
    update_then_read [of "perform CalculatorUsers_init (Create 1 ''John Doe'')" 1 0 "''John Smith''"]
  show ?thesis by blast
qed

text \<open>
  C8. In every store state reachable from the empty store by any sequence of
  \<^verbatim>\<open>create\<close>, \<^verbatim>\<open>read\<close>, \<^verbatim>\<open>update\<close> and \<^verbatim>\<open>delete\<close> calls, at most one record exists
  per id value (two stored records with the same id are one record under one key), each
  stored record's id field equals the key it is stored under, and the id field of a
  record is never changed after the record is created, whatever calls follow.
\<close>

theorem store_invariant:
  assumes "reachable s"
  shows "(\<forall>k k' r r'. User s k = Some r \<and> User s k' = Some r' \<and>
            user_id (deref s r) = user_id (deref s r') \<longrightarrow> k = k' \<and> r = r') \<and>
         (\<forall>k r. User s k = Some r \<longrightarrow> r < length (heap s) \<and> user_id (deref s r) = k) \<and>
         (\<forall>cs r. r < length (heap s) \<longrightarrow>
            r < length (heap (run s cs)) \<and> user_id (deref (run s cs) r) = user_id (deref s r))"
proof -
  from assms have wf: "wf_store s"
    by (rule reachable_wf_store)
  have key: "r < length (heap s) \<and> user_id (deref s r) = k" if "User s k = Some r" for k r
    using wf that by (simp add: wf_store_def deref_def)
  have one: "k = k' \<and> r = r'"
    if "User s k = Some r" "User s k' = Some r'" "user_id (deref s r) = user_id (deref s r')"
    for k k' r r'
  proof -
    from that key [of k r] key [of k' r'] have "k = k'" by simp
    with that show ?thesis by simp
  qed
  have kept: "r < length (heap (run s cs)) \<and> user_id (deref (run s cs) r) = user_id (deref s r)"
    if "r < length (heap s)" for cs r
    using run_user_id [OF that, of cs] by (simp add: deref_def)
  from key one kept show ?thesis by blast
qed

theorem store_invariant_witness:
  "reachable (run CalculatorUsers_init [Create 1 ''John Doe'', Create 2 ''Jane Doe'']) \<and>
   User (run CalculatorUsers_init [Create 1 ''John Doe'', Create 2 ''Jane Doe'']) 1 = Some 0 \<and>
   user_id (deref (run CalculatorUsers_init [Create 1 ''John Doe'', Create 2 ''Jane Doe'']) 0) = 1 \<and>
   user_id (deref (run (run CalculatorUsers_init [Create 1 ''John Doe'', Create 2 ''Jane Doe''])
                     [Update 1 ''John Smith'', Delete 1, Create 1 ''Jim Doe'']) 0) = 1"
proof -
  have reach: "reachable (run CalculatorUsers_init [Create 1 ''John Doe'', Create 2 ''Jane Doe''])"
    by (rule reachable_run [OF reachable.init])
  have stored: "User (run CalculatorUsers_init [Create 1 ''John Doe'', Create 2 ''Jane Doe'']) 1 = Some 0"
    by (simp add: CalculatorUsers_init_def CalculatorUsers_create_def Let_def)
  from store_invariant [OF reach] stored
  have "0 < length (heap (run CalculatorUsers_init [Create 1 ''John Doe'', Create 2 ''Jane Doe'']))"
    and "user_id (deref (run CalculatorUsers_init [Create 1 ''John Doe'', Create 2 ''Jane Doe'']) 0) = 1"
    by blast+
  with store_invariant [OF reach] reach stored show ?thesis
    by metis
qed

text \<open>
  C9. Every failing call leaves the store unchanged: \<^verbatim>\<open>create\<close> on a present id, and
  \<^verbatim>\<open>read\<close>, \<^verbatim>\<open>update\<close> or \<^verbatim>\<open>delete\<close> on an absent id, fail without modifying the
  mapping (or any record); \<^verbatim>\<open>read\<close> never modifies it, even when it succeeds.
\<close>

theorem failure_leaves_store:
  "(i \<in> dom (User s) \<longrightarrow>
      isl (fst (CalculatorUsers_create s i name)) \<and> snd (CalculatorUsers_create s i name) = s) \<and>
   (i \<notin> dom (User s) \<longrightarrow>
      isl (fst (CalculatorUsers_read s i)) \<and> snd (CalculatorUsers_read s i) = s \<and>
      isl (fst (CalculatorUsers_update s i name)) \<and> snd (CalculatorUsers_update s i name) = s \<and>
      isl (fst (CalculatorUsers_delete s i)) \<and> snd (CalculatorUsers_delete s i) = s) \<and>
   (isl (fst (CalculatorUsers_create s i name)) \<longrightarrow> snd (CalculatorUsers_create s i name) = s) \<and>
   (isl (fst (CalculatorUsers_update s i name)) \<longrightarrow> snd (CalculatorUsers_update s i name) = s) \<and>
   (isl (fst (CalculatorUsers_delete s i)) \<longrightarrow> snd (CalculatorUsers_delete s i) = s) \<and>
   snd (CalculatorUsers_read s i) = s"
  by (simp add: CalculatorUsers_create_def CalculatorUsers_read_def CalculatorUsers_update_def
      CalculatorUsers_delete_def Let_def)

theorem failure_leaves_store_witness:
  "1 \<in> dom (User (perform CalculatorUsers_init (Create 1 ''John Doe''))) \<and>
   2 \<notin> dom (User (perform CalculatorUsers_init (Create 1 ''John Doe''))) \<and>
   isl (fst (CalculatorUsers_create (perform CalculatorUsers_init (Create 1 ''John Doe'')) 1 ''Jane Doe'')) \<and>
   snd (CalculatorUsers_create (perform CalculatorUsers_init (Create 1 ''John Doe'')) 1 ''Jane Doe'') =
     perform CalculatorUsers_init (Create 1 ''John Doe'') \<and>
   isl (fst (CalculatorUsers_delete (perform CalculatorUsers_init (Create 1 ''John Doe'')) 2)) \<and>
   snd (CalculatorUsers_delete (perform CalculatorUsers_init (Create 1 ''John Doe'')) 2) =
     perform CalculatorUsers_init (Create 1 ''John Doe'') \<and>
   snd (CalculatorUsers_update (perform CalculatorUsers_init (Create 1 ''John Doe'')) 2 ''Jane Doe'') =
     perform CalculatorUsers_init (Create 1 ''John Doe'') \<and>
   snd (CalculatorUsers_read (perform CalculatorUsers_init (Create 1 ''John Doe'')) 1) =
     perform CalculatorUsers_init (Create 1 ''John Doe'')"
proof -
  have present: "1 \<in> dom (User (perform CalculatorUsers_init (Create 1 ''John Doe'')))"
    and absent: "2 \<notin> dom (User (perform CalculatorUsers_init (Create 1 ''John Doe'')))"
    by (simp_all add: CalculatorUsers_init_def CalculatorUsers_create_def Let_def)
  from present absent
    failure_leaves_store [of 1 "perform CalculatorUsers_init (Create 1 ''John Doe'')" "''Jane Doe''"]
    failure_leaves_store [of 2 "perform CalculatorUsers_init (Create 1 ''John Doe'')" "''Jane Doe''"]
  show ?thesis by blast
qed

text \<open>
  C10. A call of \<^verbatim>\<open>create(id, name)\<close>, \<^verbatim>\<open>update(id, name)\<close> or \<^verbatim>\<open>delete(id)\<close> leaves
  the records stored under every other key unchanged: for a key different from \<open>id\<close>
  the call neither adds nor removes an entry, and the record stored there keeps its
  content. (This holds for every call, so for every successful one.)
\<close>

theorem other_keys_unchanged:
  assumes "reachable s" and "k \<noteq> i"
  shows "User (snd (CalculatorUsers_create s i name)) k = User s k \<and>
         User (snd (CalculatorUsers_update s i name)) k = User s k \<and>
         User (snd (CalculatorUsers_delete s i)) k = User s k \<and>
         (\<forall>r. User s k = Some r \<longrightarrow>
            deref (snd (CalculatorUsers_create s i name)) r = deref s r \<and>
            deref (snd (CalculatorUsers_update s i name)) r = deref s r \<and>
            deref (snd (CalculatorUsers_delete s i)) r = deref s r)"
proof -
  from assms(1) have wf: "wf_store s"
    by (rule reachable_wf_store)
  from assms(2) have keys:
    "User (snd (CalculatorUsers_create s i name)) k = User s k"
    "User (snd (CalculatorUsers_update s i name)) k = User s k"
    "User (snd (CalculatorUsers_delete s i)) k = User s k"
    by (simp_all add: CalculatorUsers_create_def CalculatorUsers_update_def
        CalculatorUsers_delete_def Let_def)
  have records:
    "deref (snd (CalculatorUsers_create s i name)) r = deref s r \<and>
     deref (snd (CalculatorUsers_update s i name)) r = deref s r \<and>
     deref (snd (CalculatorUsers_delete s i)) r = deref s r"
    if stored: "User s k = Some r" for r
  proof (intro conjI)
    from wf stored have alloc: "r < length (heap s)"
      by (simp add: wf_store_def)
    then show "deref (snd (CalculatorUsers_create s i name)) r = deref s r"
      by (simp add: CalculatorUsers_create_def deref_def Let_def nth_append)
    show "deref (snd (CalculatorUsers_update s i name)) r = deref s r"
    proof (cases "User s i")
      case None
      then have "i \<notin> dom (User s)" by blast
      then show ?thesis by (simp add: CalculatorUsers_update_def)
    next
      case (Some r')
      with wf stored assms(2) have "r' \<noteq> r"
        using wf_store_no_alias [of s i r k] by blast
      with Some show ?thesis
        by (simp add: CalculatorUsers_update_def deref_def Let_def)
    qed
    show "deref (snd (CalculatorUsers_delete s i)) r = deref s r"
      by (simp add: CalculatorUsers_delete_def deref_def)
  qed
  from keys records show ?thesis by blast
qed

theorem other_keys_unchanged_witness:
  "reachable (run CalculatorUsers_init [Create 1 ''John Doe'', Create 2 ''Jane Doe'']) \<and>
   User (snd (CalculatorUsers_update
                (run CalculatorUsers_init [Create 1 ''John Doe'', Create 2 ''Jane Doe''])
                1 ''John Smith'')) 2 = Some 1 \<and>
   deref (snd (CalculatorUsers_update
                 (run CalculatorUsers_init [Create 1 ''John Doe'', Create 2 ''Jane Doe''])
                 1 ''John Smith'')) 1 = \<lparr>user_id = 2, user_name = ''Jane Doe''\<rparr> \<and>
   User (snd (CalculatorUsers_delete
                (run CalculatorUsers_init [Create 1 ''John Doe'', Create 2 ''Jane Doe'']) 1)) 2 = Some 1 \<and>
   deref (snd (CalculatorUsers_create
                 (run CalculatorUsers_init [Create 1 ''John Doe'', Create 2 ''Jane Doe''])
                 3 ''Jim Doe'')) 1 = \<lparr>user_id = 2, user_name = ''Jane Doe''\<rparr>"
proof -
  have reach: "reachable (run CalculatorUsers_init [Create 1 ''John Doe'', Create 2 ''Jane Doe''])"
    by (rule reachable_run [OF reachable.init])
  have stored: "User (run CalculatorUsers_init [Create 1 ''John Doe'', Create 2 ''Jane Doe'']) 2 = Some 1"
    and content: "deref (run CalculatorUsers_init [Create 1 ''John Doe'', Create 2 ''Jane Doe'']) 1 =
      \<lparr>user_id = 2, user_name = ''Jane Doe''\<rparr>"
    by (simp_all add: CalculatorUsers_init_def CalculatorUsers_create_def deref_def Let_def)
  have "(2::int) \<noteq> 1" and "(2::int) \<noteq> 3"
    by simp_all
  from other_keys_unchanged [OF reach this(1), of "''John Smith''"]
    other_keys_unchanged [OF reach this(2), of "''Jim Doe''"] reach stored content
  show ?thesis by metis
qed

end
